theory Spec2Isabelle
  imports Complex_Main "HOL-Library.Sublist" "HOL-Library.AList"
begin

section \<open>The DSSAT tool server: data exchanged with the caller\<close>

text \<open>
  The three handlers of \<^verbatim>\<open>server.py\<close> receive the decoded JSON body as a Python
  dictionary and either return a result object or raise. A dictionary is an association
  list that is read with \<open>map_of\<close>; an exception is a value of \<open>exn\<close>, returned on the
  left of a sum.
\<close>

datatype json =
    JNull
  | JBool bool
  | JNum real
  | JStr string
  | JList "json list"
  | JObj "(string \<times> json) list"

type_synonym payload = "(string \<times> json) list"

text \<open>
  \<open>HTTPException\<close> carries the status code and the detail string. The
  \<^verbatim>\<open>RuntimeError(f"One or more downloads failed: {errors}")\<close> of the download handler is
  \<open>DownloadsFailed errors\<close>: the dictionary is kept as a value instead of its printed form.
  \<open>ValidationError\<close> and \<open>TypeError\<close> are what the pydantic constructors and the \<^verbatim>\<open>**\<close>
  unpacking raise; \<open>OSError\<close> is an error of the operating system that no handler
  catches (a failed launch of the executable, a path that cannot be examined or opened),
  with its text; \<open>UnicodeDecodeError\<close> is raised when bytes that are read as text are not
  valid in the encoding.
\<close>

datatype exn =
    HTTPException nat string
  | RuntimeError string
  | DownloadsFailed "(string \<times> string) list"
  | ValidationError
  | TypeError
  | OSError string
  | UnicodeDecodeError

datatype RunArgs = RunArgs (folder: string) (experiment_file: string)

datatype DownloadS3Args =
  DownloadS3Args (dl_folder: string) (dl_experiment_file: string) (files_names_list: "string list")


record 'f kpi =
  expt :: string
  pl_date :: string
  yield_kg_ha :: 'f

record 'f summary =
  n_treatments :: nat
  treatments :: "'f kpi list"

datatype 'f RunResult =
  RunResult (exit_code: int) (stdout: string) (stderr: string) (summary: "'f summary option")

datatype DownloadS3ArgsResult = DownloadS3ArgsResult (dl_exit_code: nat) (folder_name: string)



section \<open>Paths\<close>

text \<open>
  A path is the list of its segments below the root \<^verbatim>\<open>/\<close>. \<open>joinpath\<close> is the
  \<^verbatim>\<open>/\<close> operator of \<^verbatim>\<open>pathlib\<close>: an absolute right operand replaces the left one.
  \<open>resolve\<close> is \<^verbatim>\<open>Path.resolve()\<close> on a file system without symbolic links: empty and
  \<^verbatim>\<open>.\<close> segments vanish, \<^verbatim>\<open>..\<close> steps to the parent and stays at the root.
  \<open>parents\<close> lists the proper ancestors, nearest first, as \<^verbatim>\<open>Path.parents\<close> does.
\<close>

type_synonym path = "string list"

fun split_sep :: "string \<Rightarrow> string list" where
  "split_sep [] = [[]]"
| "split_sep (c # cs) =
     (if c = CHR ''/'' then [] # split_sep cs
      else (case split_sep cs of [] \<Rightarrow> [[c]] | s # ss \<Rightarrow> (c # s) # ss))"

definition joinpath :: "path \<Rightarrow> string \<Rightarrow> path" where
  "joinpath base s =
     (case s of
        [] \<Rightarrow> base @ split_sep s
      | c # cs \<Rightarrow> if c = CHR ''/'' then split_sep s else base @ split_sep s)"

fun normalise :: "path \<Rightarrow> string list \<Rightarrow> path" where
  "normalise cur [] = cur"
| "normalise cur (s # ss) =
     (if s = [] \<or> s = ''.'' then normalise cur ss
      else if s = ''..'' then normalise (butlast cur) ss
      else normalise (cur @ [s]) ss)"

definition resolve :: "path \<Rightarrow> path" where
  "resolve p = normalise [] p"

definition parents :: "path \<Rightarrow> path list" where
  "parents p = rev (butlast (prefixes p))"

definition str_path :: "path \<Rightarrow> string" where
  "str_path p = (if p = [] then ''/'' else concat (map ((#) CHR ''/'') p))"

definition DATA_ROOT :: path where
  "DATA_ROOT = [''home'', ''christos'', ''dssat-csm-os'', ''build'', ''bin'']"

definition DSSAT_EXE :: path where
  "DSSAT_EXE = [''home'', ''christos'', ''dssat-csm-os'', ''build'', ''bin'', ''dscsm048'']"


section \<open>The server's surroundings\<close>

text \<open>
  \<open>world\<close> is the state the handlers change: the directories and regular files of the
  local file system (files with their bytes), the nodes the operating system refuses to
  remove (\<open>pinned\<close>: a mount point, an immutable file), the process's current
  directory, the objects this server has stored in the bucket, and the log of the calls
  that leave the server (downloads, uploads, launches of the executable), oldest first.
\<close>

datatype event =
    Download string
  | Upload string
  | Subprocess "string list" path

record world =
  dirs :: "path list"
  files :: "(path \<times> string) list"
  pinned :: "path list"
  cwd :: path
  bucket :: "(string \<times> (string \<times> string) list) list"
  calls :: "event list"

text \<open>
  What the object store and the executable answer is not in the repository, so it is a
  parameter: \<open>env\<close>. \<open>s3_object n k\<close> is the answer of the store to a request for the
  key \<open>k\<close> made when the log of calls has \<open>n\<close> entries, so the store may answer the same
  key differently at different times. An S3 failure is a \<^verbatim>\<open>ClientError\<close> (with the optional
  \<^verbatim>\<open>Code\<close> and \<^verbatim>\<open>Message\<close> of its response and its \<^verbatim>\<open>str\<close>) or any other exception
  (its \<^verbatim>\<open>str\<close>). \<open>dssat\<close> says how a launch of the executable behaves: the launch fails
  (the text of the error), or the process runs for \<open>elapsed\<close> seconds, writes \<open>writes\<close>
  and ends with \<open>returncode\<close> and the bytes \<open>out\<close> and \<open>err\<close> on its two streams.
  \<open>decode\<close> is the codec of the locale, which \<^verbatim>\<open>subprocess.run(text=True)\<close> and
  \<^verbatim>\<open>open()\<close> use to turn bytes into text: \<open>None\<close> where it raises
  \<^verbatim>\<open>UnicodeDecodeError\<close>. \<open>stat_error\<close> is the text of the \<^verbatim>\<open>OSError\<close>, if any, that
  \<^verbatim>\<open>Path.is_dir()\<close> and \<^verbatim>\<open>Path.is_file()\<close> let through for a path the system cannot
  examine (they answer \<^verbatim>\<open>False\<close> themselves when the path does not exist or passes
  through a file; a name longer than the system allows, or a directory that may not be
  searched, raises up to Python 3.12), and \<open>open_error\<close> the text of the \<^verbatim>\<open>OSError\<close>,
  if any, raised when a file is opened for reading.
  \<open>py_float\<close> is Python's \<^verbatim>\<open>float\<close> on a
  string, \<open>None\<close> where it raises; \<open>zip_error\<close> is the text of the exception, if any,
  raised while the archive of a directory is written, and \<open>io_error_text\<close> the text of the
  exception raised when a downloaded object cannot be stored at a path; \<open>literal_list\<close>
  is \<^verbatim>\<open>json.loads\<close>, then \<^verbatim>\<open>ast.literal_eval\<close> when that fails, followed by
  \<^verbatim>\<open>[str(i) for i in x]\<close> when the value is a list, and the exception raised otherwise.
\<close>

datatype s3_error =
    ClientError "string option" "string option" string
  | OtherError string

datatype client_error =
    NoCredentialsError
  | EndpointConnectionError string
  | ClientCreationError string

record behaviour =
  elapsed :: real
  returncode :: int
  out :: string
  err :: string
  writes :: "(path \<times> string) list"

record 'f env =
  literal_list :: "string \<Rightarrow> exn + string list"
  boto3_client :: "client_error option"
  s3_object :: "nat \<Rightarrow> string \<Rightarrow> s3_error + string"
  s3_put :: "string \<Rightarrow> s3_error option"
  s3_sign :: "string \<Rightarrow> s3_error + string"
  io_error_text :: "path \<Rightarrow> string"
  zip_error :: "path \<Rightarrow> string option"
  dssat :: "string list \<Rightarrow> path \<Rightarrow> world \<Rightarrow> string + behaviour"
  decode :: "string \<Rightarrow> string option"
  stat_error :: "path \<Rightarrow> string option"
  open_error :: "path \<Rightarrow> string option"
  py_float :: "string \<Rightarrow> 'f option"


section \<open>File-system operations\<close>

datatype oserror = FileNotFoundError | NotADirectoryError | FileExistsError

definition strerror :: "oserror \<Rightarrow> string" where
  "strerror e =
     (case e of
        FileNotFoundError \<Rightarrow> ''No such file or directory''
      | NotADirectoryError \<Rightarrow> ''Not a directory''
      | FileExistsError \<Rightarrow> ''File exists'')"

definition errno :: "oserror \<Rightarrow> string" where
  "errno e =
     (case e of
        FileNotFoundError \<Rightarrow> ''2''
      | NotADirectoryError \<Rightarrow> ''20''
      | FileExistsError \<Rightarrow> ''17'')"

text \<open>
  \<^verbatim>\<open>str(exc)\<close> of an \<^verbatim>\<open>OSError\<close> with a file name; the name is printed between single
  quotes (its \<^verbatim>\<open>repr\<close> when it has no quote, backslash or control character).
\<close>

definition str_oserror :: "oserror \<Rightarrow> path \<Rightarrow> string" where
  "str_oserror e p =
     ''[Errno '' @ errno e @ ''] '' @ strerror e @ '': '' @ [CHR 0x27] @ str_path p @ [CHR 0x27]"

definition dir_node :: "world \<Rightarrow> path \<Rightarrow> bool" where
  "dir_node w q = (q = [] \<or> q \<in> set (dirs w))"

definition file_node :: "world \<Rightarrow> path \<Rightarrow> bool" where
  "file_node w q = (map_of (files w) q \<noteq> None)"

definition is_dir :: "world \<Rightarrow> path \<Rightarrow> bool" where
  "is_dir w p = dir_node w (resolve p)"

text \<open>
  \<^verbatim>\<open>Path.is_file()\<close> asks the system about the path as it is written: nothing is
  normalised beyond what \<^verbatim>\<open>pathlib\<close> does when it builds the path, which is to drop the
  empty and the \<^verbatim>\<open>.\<close> segments. The system walks the other segments from the root: a
  name is looked up in the directory reached so far and \<^verbatim>\<open>..\<close> steps to its parent, so
  each of them needs the node reached so far to be a directory. \<open>walk\<close> gives the node
  the path leads to, \<open>None\<close> when the walk fails on the way (\<^verbatim>\<open>ENOENT\<close>,
  \<^verbatim>\<open>ENOTDIR\<close>); \<open>is_file\<close> is \<^verbatim>\<open>True\<close> when the walk ends at a regular file.
\<close>

fun walk :: "world \<Rightarrow> path \<Rightarrow> string list \<Rightarrow> path option" where
  "walk w cur [] = Some cur"
| "walk w cur (s # ss) =
     (if s = [] \<or> s = ''.'' then walk w cur ss
      else if \<not> dir_node w cur then None
      else if s = ''..'' then walk w (butlast cur) ss
      else walk w (cur @ [s]) ss)"

definition is_file :: "world \<Rightarrow> path \<Rightarrow> bool" where
  "is_file w p = (case walk w [] p of None \<Rightarrow> False | Some q \<Rightarrow> file_node w q)"

text \<open>
  The two method calls as the handlers make them: the answer of the file system, or the
  \<^verbatim>\<open>OSError\<close> that \<^verbatim>\<open>pathlib\<close> lets through. What the world holds can be examined.
\<close>

definition Path_is_dir :: "'f env \<Rightarrow> world \<Rightarrow> path \<Rightarrow> exn + bool" where
  "Path_is_dir env w p =
     (if is_dir w p then Inr True
      else (case stat_error env p of Some m \<Rightarrow> Inl (OSError m) | None \<Rightarrow> Inr False))"

definition Path_is_file :: "'f env \<Rightarrow> world \<Rightarrow> path \<Rightarrow> exn + bool" where
  "Path_is_file env w p =
     (if is_file w p then Inr True
      else (case stat_error env p of Some m \<Rightarrow> Inl (OSError m) | None \<Rightarrow> Inr False))"

text \<open>\<^verbatim>\<open>os.chdir\<close>: the path must name a directory.\<close>

definition chdir :: "world \<Rightarrow> path \<Rightarrow> oserror + world" where
  "chdir w p =
     (let q = resolve p in
      if dir_node w q then Inr (w\<lparr>cwd := q\<rparr>)
      else if list_ex (file_node w) (prefixes q) then Inl NotADirectoryError
      else Inl FileNotFoundError)"

text \<open>
  \<^verbatim>\<open>Path.mkdir(parents=True, exist_ok=True)\<close>: nothing to do for a directory; an error
  when the path or one of its ancestors is a regular file; otherwise the path and its
  missing ancestors become directories.
\<close>

definition mkdir_parents :: "world \<Rightarrow> path \<Rightarrow> oserror + world" where
  "mkdir_parents w p =
     (let q = resolve p in
      if dir_node w q then Inr w
      else if file_node w q then Inl FileExistsError
      else if list_ex (file_node w) (prefixes q) then Inl NotADirectoryError
      else Inr (w\<lparr>dirs := dirs w @ filter (\<lambda>d. \<not> dir_node w d) (prefixes q)\<rparr>))"





section \<open>Strings\<close>

text \<open>
  \<^verbatim>\<open>s[-n:]\<close> for a positive \<open>n\<close>, \<^verbatim>\<open>s[a:b]\<close> for \<open>a \<le> b\<close> (a slice never raises),
  \<^verbatim>\<open>s.strip()\<close> (the characters Python counts as white space, among the first 256 code
  points).
\<close>

definition last_chars :: "nat \<Rightarrow> string \<Rightarrow> string" where
  "last_chars n s = drop (length s - n) s"

definition slice :: "nat \<Rightarrow> nat \<Rightarrow> string \<Rightarrow> string" where
  "slice a b s = take (b - a) (drop a s)"

definition isspace :: "char \<Rightarrow> bool" where
  "isspace c =
     (let n = (of_char c :: nat)
      in (9 \<le> n \<and> n \<le> 13) \<or> (28 \<le> n \<and> n \<le> 32) \<or> n = 133 \<or> n = 160)"

definition strip :: "string \<Rightarrow> string" where
  "strip s = rev (dropWhile isspace (rev (dropWhile isspace s)))"

text \<open>
  Text that Python reads with universal newlines (a file opened in text mode, the output
  of \<^verbatim>\<open>subprocess.run(text=True)\<close>): a carriage return followed by a line feed, and a
  carriage return alone, each become one line feed. \<open>py_lines\<close> is the lines a text file
  yields when it is iterated: the translated text cut after each line feed, so a line
  keeps its newline and only the last line can lack one.
\<close>

fun universal_newlines :: "string \<Rightarrow> string" where
  "universal_newlines [] = []"
| "universal_newlines [c] = (if c = CHR 0x0D then [CHR 0x0A] else [c])"
| "universal_newlines (c # d # cs) =
     (if c = CHR 0x0D \<and> d = CHR 0x0A then CHR 0x0A # universal_newlines cs
      else if c = CHR 0x0D then CHR 0x0A # universal_newlines (d # cs)
      else c # universal_newlines (d # cs))"

fun keepends :: "string \<Rightarrow> string list" where
  "keepends [] = []"
| "keepends (c # cs) =
     (if c = CHR 0x0A then [c] # keepends cs
      else (case keepends cs of [] \<Rightarrow> [[c]] | l # ls \<Rightarrow> (c # l) # ls))"

definition py_lines :: "string \<Rightarrow> string list" where
  "py_lines text = keepends (universal_newlines text)"

text \<open>
  \<^verbatim>\<open>path.open()\<close> followed by the reading of the whole file as text: the bytes of the
  file the path leads to, decoded.
\<close>

definition read_bytes :: "world \<Rightarrow> path \<Rightarrow> string" where
  "read_bytes w p =
     (case walk w [] p of
        None \<Rightarrow> []
      | Some q \<Rightarrow> (case map_of (files w) q of None \<Rightarrow> [] | Some t \<Rightarrow> t))"

definition open_text :: "'f env \<Rightarrow> world \<Rightarrow> path \<Rightarrow> exn + string" where
  "open_text env w p =
     (case open_error env p of
        Some m \<Rightarrow> Inl (OSError m)
      | None \<Rightarrow>
          (case decode env (read_bytes w p) of
             None \<Rightarrow> Inl UnicodeDecodeError
           | Some text \<Rightarrow> Inr text))"


section \<open>Request validation (\<^verbatim>\<open>mcp_tools_utils.py\<close>)\<close>

text \<open>
  The pydantic constructors, called with the keyword arguments \<open>kw\<close>: a field must be
  present and a string (a list of strings for \<open>files_names_list\<close>, after
  \<^verbatim>\<open>coerce_files\<close>); other keys are ignored.
\<close>

definition has_key :: "string \<Rightarrow> payload \<Rightarrow> bool" where
  "has_key k d = (map_of d k \<noteq> None)"

definition RunArgs_init :: "payload \<Rightarrow> exn + RunArgs" where
  "RunArgs_init kw =
     (case map_of kw ''folder'' of
        Some (JStr f) \<Rightarrow>
          (case map_of kw ''experiment_file'' of
             Some (JStr e) \<Rightarrow> Inr (RunArgs f e)
           | _ \<Rightarrow> Inl ValidationError)
      | _ \<Rightarrow> Inl ValidationError)"






section \<open>Object store and executable\<close>

definition client_message :: "client_error \<Rightarrow> string" where
  "client_message ce =
     (case ce of
        NoCredentialsError \<Rightarrow> ''AWS credentials are missing or invalid.''
      | EndpointConnectionError url \<Rightarrow> ''Could not reach S3 endpoint: '' @ url
      | ClientCreationError s \<Rightarrow> ''Failed to create S3 client: '' @ s)"

definition client_error_detail :: "string option \<Rightarrow> string option \<Rightarrow> string \<Rightarrow> string" where
  "client_error_detail code msg s =
     ''S3 ClientError ['' @ (case code of None \<Rightarrow> ''Unknown'' | Some c \<Rightarrow> c) @ '']: '' @
     (case msg of None \<Rightarrow> s | Some m \<Rightarrow> m)"

text \<open>
  \<^verbatim>\<open>s3.download_file(S3_BUCKET, s3_file, f"./{s3_file}")\<close>: the object is fetched, then
  stored at the path relative to the current directory. The path must end in a name, the
  segments before it must lead to a directory, and the path must not be a directory
  itself; a file that is there already is replaced. \<open>local_target\<close> is the node the object
  is stored at, \<open>None\<close> when it cannot be stored.
\<close>

definition local_target :: "world \<Rightarrow> string \<Rightarrow> path option" where
  "local_target w s3_file =
     (let p = joinpath (cwd w) (''./'' @ s3_file); name = last p in
      if name = [] \<or> name = ''.'' \<or> name = ''..'' then None
      else
        (case walk w [] (butlast p) of
           None \<Rightarrow> None
         | Some d \<Rightarrow> if dir_node w d \<and> \<not> dir_node w (d @ [name]) then Some (d @ [name]) else None))"

definition download_file :: "'f env \<Rightarrow> world \<Rightarrow> string \<Rightarrow> (s3_error + unit) \<times> world" where
  "download_file env w s3_file =
     (let w' = w\<lparr>calls := calls w @ [Download s3_file]\<rparr> in
      case s3_object env (length (calls w)) s3_file of
        Inl e \<Rightarrow> (Inl e, w')
      | Inr bytes \<Rightarrow>
          (case local_target w s3_file of
             None \<Rightarrow>
               (Inl (OtherError (io_error_text env (joinpath (cwd w) (''./'' @ s3_file)))), w')
           | Some t \<Rightarrow> (Inr (), w'\<lparr>files := AList.update t bytes (files w)\<rparr>)))"


text \<open>
  \<^verbatim>\<open>subprocess.run(cmd, cwd=work_dir, text=True, capture_output=True, timeout=..., check=False)\<close>:
  a process that needs more than the timeout is killed and \<^verbatim>\<open>TimeoutExpired\<close> is
  raised, whatever it has written. Otherwise the bytes of the two streams are decoded
  and their newlines translated, which raises when a stream cannot be decoded, and the
  completed process is returned, whatever its return code.
\<close>

datatype subprocess_error = TimeoutExpired | LaunchError string | OutputDecodeError

datatype CompletedProcess =
  CompletedProcess (proc_returncode: int) (proc_stdout: string) (proc_stderr: string)

definition subprocess_run ::
  "'f env \<Rightarrow> world \<Rightarrow> string list \<Rightarrow> path \<Rightarrow> real \<Rightarrow> (subprocess_error + CompletedProcess) \<times> world" where
  "subprocess_run env w cmd dir timeout =
     (let w' = w\<lparr>calls := calls w @ [Subprocess cmd dir]\<rparr> in
      case dssat env cmd dir w of
        Inl m \<Rightarrow> (Inl (LaunchError m), w')
      | Inr b \<Rightarrow>
          (let w'' = w'\<lparr>files := fold (\<lambda>(f, c). AList.update f c) (writes b) (files w)\<rparr> in
           if timeout < elapsed b then (Inl TimeoutExpired, w'')
           else
             (case (decode env (out b), decode env (err b)) of
                (Some so, Some se) \<Rightarrow>
                  (Inr (CompletedProcess (returncode b) (universal_newlines so)
                          (universal_newlines se)), w'')
              | _ \<Rightarrow> (Inl OutputDecodeError, w''))))"


section \<open>The summary parser (\<^verbatim>\<open>_parse_summary\<close>)\<close>

text \<open>
  The loop over the lines of \<^verbatim>\<open>SUMMARY.OUT\<close>, with the list \<open>kpis\<close> it appends to. The
  only statement of the \<^verbatim>\<open>try\<close> block that can raise is \<^verbatim>\<open>float\<close>; the line is then
  passed over. The test for the file, its opening and the reading of its lines are
  outside the \<^verbatim>\<open>try\<close> block: what they raise leaves \<open>parse_summary\<close>.
\<close>

fun parse_lines :: "'f env \<Rightarrow> string list \<Rightarrow> 'f kpi list \<Rightarrow> 'f kpi list" where
  "parse_lines env [] kpis = kpis"
| "parse_lines env (line # rest) kpis =
     (if prefix ''@'' line \<or> strip line = [] then parse_lines env rest kpis
      else
        (case py_float env (strip (slice 65 72 line)) of
           None \<Rightarrow> parse_lines env rest kpis
         | Some yield_kg \<Rightarrow>
             parse_lines env rest
               (kpis @ [\<lparr>expt = strip (slice 0 8 line),
                         pl_date = strip (slice 19 25 line),
                         yield_kg_ha = yield_kg\<rparr>])))"

definition parse_summary :: "'f env \<Rightarrow> world \<Rightarrow> path \<Rightarrow> exn + 'f summary option" where
  "parse_summary env w work_dir =
     (let summary_file = joinpath work_dir ''SUMMARY.OUT'' in
      case Path_is_file env w summary_file of
        Inl e \<Rightarrow> Inl e
      | Inr False \<Rightarrow> Inr None
      | Inr True \<Rightarrow>
          (case open_text env w summary_file of
             Inl e \<Rightarrow> Inl e
           | Inr text \<Rightarrow>
               (let kpis = parse_lines env (py_lines text) []
                in Inr (Some \<lparr>n_treatments = length kpis, treatments = kpis\<rparr>))))"


section \<open>The handlers (\<^verbatim>\<open>server.py\<close>)\<close>

text \<open>
  Each handler is split where the source has its first comment: the choice between the
  flat and the wrapped request (\<open>_args\<close>), and the work on the validated arguments
  (\<open>_validated\<close>). A handler returns the result or the exception, and the world it leaves.
  The three handlers share the \<^verbatim>\<open>except\<close> clauses around \<^verbatim>\<open>os.chdir\<close>.
\<close>

definition chdir_error :: "oserror \<Rightarrow> path \<Rightarrow> exn" where
  "chdir_error e work_dir =
     (case e of
        FileNotFoundError \<Rightarrow> HTTPException 404 (str_path work_dir @ '' not found'')
      | _ \<Rightarrow> HTTPException 500 (str_oserror e work_dir))"

subsection \<open>\<^verbatim>\<open>run_dssat_experiment\<close>\<close>

definition run_dssat_experiment_args :: "payload \<Rightarrow> exn + RunArgs" where
  "run_dssat_experiment_args payload =
     (if has_key ''folder'' payload \<and> has_key ''experiment_file'' payload
      then RunArgs_init payload
      else
        (case map_of payload ''args'' of
           Some (JObj kw) \<Rightarrow> RunArgs_init kw
         | Some _ \<Rightarrow> Inl TypeError
         | None \<Rightarrow> Inl (HTTPException 400 ''Expected keys: folder & experiment_file'')))"

definition run_dssat_experiment_validated ::
  "'f env \<Rightarrow> world \<Rightarrow> RunArgs \<Rightarrow> (exn + 'f RunResult) \<times> world" where
  "run_dssat_experiment_validated env w args =
     (let work_dir = resolve (joinpath DATA_ROOT (folder args)) in
      case Path_is_dir env w work_dir of
        Inl e \<Rightarrow> (Inl e, w)
      | Inr d \<Rightarrow>
          if \<not> d \<or> DATA_ROOT \<notin> set (parents work_dir)
          then (Inl (HTTPException 400 ''Invalid folder''), w)
          else
            (case chdir w work_dir of
               Inl e \<Rightarrow> (Inl (chdir_error e work_dir), w)
             | Inr w1 \<Rightarrow>
                 (case Path_is_file env w1 (joinpath work_dir (experiment_file args)) of
                    Inl e \<Rightarrow> (Inl e, w1)
                  | Inr False \<Rightarrow> (Inl (HTTPException 400 ''Experiment file not found''), w1)
                  | Inr True \<Rightarrow>
                      (case subprocess_run env w1
                              [str_path DSSAT_EXE, ''A'', experiment_file args] work_dir 600 of
                         (Inl TimeoutExpired, w2) \<Rightarrow>
                           (Inl (HTTPException 504 ''DSSAT run timed out''), w2)
                       | (Inl (LaunchError m), w2) \<Rightarrow> (Inl (OSError m), w2)
                       | (Inl OutputDecodeError, w2) \<Rightarrow> (Inl UnicodeDecodeError, w2)
                       | (Inr proc, w2) \<Rightarrow>
                           (case parse_summary env w2 work_dir of
                              Inl e \<Rightarrow> (Inl e, w2)
                            | Inr s \<Rightarrow>
                                (Inr (RunResult (proc_returncode proc)
                                        (last_chars 10000 (proc_stdout proc))
                                        (last_chars 10000 (proc_stderr proc)) s), w2))))))"

definition run_dssat_experiment ::
  "'f env \<Rightarrow> world \<Rightarrow> payload \<Rightarrow> (exn + 'f RunResult) \<times> world" where
  "run_dssat_experiment env w payload =
     (case run_dssat_experiment_args payload of
        Inl e \<Rightarrow> (Inl e, w)
      | Inr args \<Rightarrow> run_dssat_experiment_validated env w args)"

subsection \<open>\<^verbatim>\<open>download_files_from_s3\<close>\<close>


text \<open>The loop over \<^verbatim>\<open>args.files_names_list\<close>, with the dictionary \<open>errors\<close> it fills.\<close>

fun download_loop ::
  "'f env \<Rightarrow> string list \<Rightarrow> (string \<times> string) list \<Rightarrow> world \<Rightarrow> (string \<times> string) list \<times> world" where
  "download_loop env [] errors w = (errors, w)"
| "download_loop env (s3_file # rest) errors w =
     (case download_file env w s3_file of
        (Inr u, w') \<Rightarrow> download_loop env rest errors w'
      | (Inl (ClientError code msg s), w') \<Rightarrow>
          download_loop env rest
            (AList.update s3_file (client_error_detail code msg s) errors) w'
      | (Inl (OtherError s), w') \<Rightarrow>
          download_loop env rest (AList.update s3_file (''Unexpected error: '' @ s) errors) w')"

definition download_files_from_s3_validated ::
  "'f env \<Rightarrow> world \<Rightarrow> DownloadS3Args \<Rightarrow> (exn + DownloadS3ArgsResult) \<times> world" where
  "download_files_from_s3_validated env w args =
     (let work_dir = resolve (joinpath DATA_ROOT (dl_folder args)) in
      if DATA_ROOT \<notin> set (parents work_dir)
      then (Inl (HTTPException 400 ''Invalid folder (outside DATA_ROOT)''), w)
      else
        (case mkdir_parents w work_dir of
           Inl e \<Rightarrow>
             (Inl (HTTPException 500
                     (''Failed to create directory '' @ [CHR 0x27] @ str_path work_dir
                      @ [CHR 0x27] @ '': '' @ strerror e)), w)
         | Inr w1 \<Rightarrow>
             (case chdir w1 work_dir of
                Inl e \<Rightarrow> (Inl (chdir_error e work_dir), w1)
              | Inr w2 \<Rightarrow>
                  (case boto3_client env of
                     Some ce \<Rightarrow> (Inl (RuntimeError (client_message ce)), w2)
                   | None \<Rightarrow>
                       (case download_loop env (files_names_list args) [] w2 of
                          (errors, w3) \<Rightarrow>
                            if errors \<noteq> [] then (Inl (DownloadsFailed errors), w3)
                            else
                              (case Path_is_file env w3
                                      (joinpath work_dir (dl_experiment_file args)) of
                                 Inl e \<Rightarrow> (Inl e, w3)
                               | Inr False \<Rightarrow>
                                   (Inl (HTTPException 400 ''Experiment file not found''), w3)
                               | Inr True \<Rightarrow>
                                   (Inr (DownloadS3ArgsResult 200 (dl_folder args)), w3)))))))"


subsection \<open>\<^verbatim>\<open>upload_and_collect_output_files\<close>\<close>





section \<open>Example surroundings\<close>

text \<open>
  A data root with the projects \<open>Wheat\<close> (two experiment files, and a nested run directory)
  and \<open>Maize\<close> (no experiment file; the directory is a mount point, so it cannot be
  removed), an object store that lacks \<open>B.WTH\<close>, and an executable that needs 601 seconds
  for \<open>SLOW.WHX\<close>, ends after 5 seconds with return code 0 and one byte of output that
  is no text for \<open>GARBLED.WHX\<close>, and otherwise ends after 12 seconds with return code 3,
  more than 10,000 characters of output and a summary file of one header line, one
  well-formed line and one line without a yield. The codec rejects the byte \<open>0xFF\<close>, as
  UTF-8 does, and every path can be examined and opened.
\<close>

definition ex_header_line :: string where
  "ex_header_line = ''@EXPCODE  header'' @ [CHR 0x0A]"

definition ex_data_line :: string where
  "ex_data_line =
     ''SWSW7501'' @ replicate 11 CHR '' '' @ ''750101'' @ replicate 40 CHR '' '' @ ''   5683''
       @ [CHR 0x0A]"

definition ex_bad_line :: string where
  "ex_bad_line = ''SWSW7501 no yield here'' @ [CHR 0x0A]"

definition ex_summary_text :: string where
  "ex_summary_text = ex_header_line @ ex_data_line @ ex_bad_line"

definition ex_out :: string where
  "ex_out = ''init'' @ replicate 10000 CHR ''.''"

definition ex_env :: "int env" where
  "ex_env =
     \<lparr>literal_list = (\<lambda>s. Inl ValidationError),
      boto3_client = None,
      s3_object = (\<lambda>n k. if k = ''B.WTH''
                         then Inl (ClientError (Some ''404'') (Some ''Not Found'') ''HeadObject'')
                         else Inr ''text''),
      s3_put = (\<lambda>k. None),
      s3_sign = (\<lambda>k. Inr (''https://bucket/'' @ k)),
      io_error_text = (\<lambda>p. ''[Errno 2] No such file or directory''),
      zip_error = (\<lambda>p. None),
      dssat = (\<lambda>cmd dir w.
                 if cmd = [str_path DSSAT_EXE, ''A'', ''SLOW.WHX'']
                 then Inr \<lparr>elapsed = 601, returncode = 0, out = [], err = [], writes = []\<rparr>
                 else if cmd = [str_path DSSAT_EXE, ''A'', ''GARBLED.WHX'']
                 then Inr \<lparr>elapsed = 5, returncode = 0, out = [CHR 0xFF], err = [], writes = []\<rparr>
                 else Inr \<lparr>elapsed = 12, returncode = 3, out = ex_out, err = ''warn'',
                           writes = [(dir @ [''SUMMARY.OUT''], ex_summary_text)]\<rparr>),
      decode = (\<lambda>b. if CHR 0xFF \<in> set b then None else Some b),
      stat_error = (\<lambda>p. None),
      open_error = (\<lambda>p. None),
      py_float = (\<lambda>s. if s = ''5683'' then Some 5683 else None)\<rparr>"

definition ex_world :: world where
  "ex_world =
     \<lparr>dirs = [[''home''],
              [''home'', ''christos''],
              [''home'', ''christos'', ''dssat-csm-os''],
              [''home'', ''christos'', ''dssat-csm-os'', ''build''],
              DATA_ROOT,
              DATA_ROOT @ [''Wheat''],
              DATA_ROOT @ [''Wheat'', ''run1''],
              DATA_ROOT @ [''Maize'']],
      files = [(DATA_ROOT @ [''Wheat'', ''SWSW7501.WHX''], ''*EXP''),
               (DATA_ROOT @ [''Wheat'', ''SLOW.WHX''], ''*EXP''),
               (DATA_ROOT @ [''Wheat'', ''GARBLED.WHX''], ''*EXP''),
               (DATA_ROOT @ [''Wheat'', ''run1'', ''SWSW7501.WHX''], ''*EXP''),
               (DATA_ROOT @ [''Maize'', ''OVERVIEW.OUT''], ''*OUT'')],
      pinned = [DATA_ROOT @ [''Maize'']],
      cwd = [],
      bucket = [],
      calls = []\<rparr>"

text \<open>
  The example world with a summary file of the given bytes in \<open>Wheat\<close>, and a summary
  whose header line ends with a carriage return alone.
\<close>

definition ex_world_with_summary :: "string \<Rightarrow> world" where
  "ex_world_with_summary bytes =
     ex_world\<lparr>files := (DATA_ROOT @ [''Wheat'', ''SUMMARY.OUT''], bytes) # files ex_world\<rparr>"

definition ex_mac_text :: string where
  "ex_mac_text = ''@EXPCODE  header'' @ [CHR 0x0D] @ ex_data_line"

section \<open>The summary report as the specification words it\<close>

text \<open>
  The specification describes the report line by line: a header or blank line gives no
  record; any other line gives the record of its three column ranges when its yield
  parses, and no record otherwise. \<open>summary_record\<close> is that description; the theorem
  on \<open>parse_summary\<close> below compares the loop of the source with it.
\<close>

definition summary_record :: "'f env \<Rightarrow> string \<Rightarrow> 'f kpi option" where
  "summary_record env line =
     (if prefix ''@'' line \<or> strip line = [] then None
      else
        (case py_float env (strip (slice 65 72 line)) of
           None \<Rightarrow> None
         | Some y \<Rightarrow>
             Some \<lparr>expt = strip (slice 0 8 line),
                   pl_date = strip (slice 19 25 line),
                   yield_kg_ha = y\<rparr>))"

section \<open>The download loop, attempt by attempt\<close>

text \<open>
  \<open>download_failure env w n k\<close> is the reason the loop records for the attempt on the key
  \<open>k\<close> that is made when the log has \<open>n\<close> entries, \<open>None\<close> when the attempt succeeds:
  the two \<^verbatim>\<open>except\<close> clauses of the loop body. \<open>failures\<close> lists the failed attempts
  on a list of keys, oldest first, and \<open>stores\<close> the files the successful attempts
  write.
\<close>

definition download_failure :: "'f env \<Rightarrow> world \<Rightarrow> nat \<Rightarrow> string \<Rightarrow> string option" where
  "download_failure env w n k =
     (case s3_object env n k of
        Inl (ClientError code msg s) \<Rightarrow> Some (client_error_detail code msg s)
      | Inl (OtherError s) \<Rightarrow> Some (''Unexpected error: '' @ s)
      | Inr bytes \<Rightarrow>
          (case local_target w k of
             None \<Rightarrow>
               Some (''Unexpected error: '' @ io_error_text env (joinpath (cwd w) (''./'' @ k)))
           | Some t \<Rightarrow> None))"

fun failures :: "'f env \<Rightarrow> world \<Rightarrow> nat \<Rightarrow> string list \<Rightarrow> (string \<times> string) list" where
  "failures env w n [] = []"
| "failures env w n (k # ks) =
     (case download_failure env w n k of
        None \<Rightarrow> failures env w (Suc n) ks
      | Some r \<Rightarrow> (k, r) # failures env w (Suc n) ks)"

fun stores :: "'f env \<Rightarrow> world \<Rightarrow> nat \<Rightarrow> string list \<Rightarrow> (path \<times> string) list" where
  "stores env w n [] = []"
| "stores env w n (k # ks) =
     (case (s3_object env n k, local_target w k) of
        (Inr bytes, Some t) \<Rightarrow> (t, bytes) # stores env w (Suc n) ks
      | _ \<Rightarrow> stores env w (Suc n) ks)"


section \<open>Facts shared by the proofs\<close>

lemma in_parents: "q \<in> set (parents p) \<longleftrightarrow> strict_prefix q p"
proof -
  have "set (butlast (prefixes p)) = set (prefixes p) - {last (prefixes p)}"
    by (metis distinct_prefixes prefixes_not_Nil append_butlast_last_id distinct_append
        Diff_insert_absorb Un_insert_right append_Nil2 disjoint_iff distinct.simps(2)
        list.set(1) list.set(2) set_append sup_bot.right_neutral insertI1 not_distinct_conv_prefix)
  then show ?thesis by (auto simp: parents_def strict_prefix_def)
qed

lemma walk_cwd: "walk (w\<lparr>cwd := c\<rparr>) cur ss = walk w cur ss"
  by (induction ss arbitrary: cur) (simp_all add: dir_node_def)

lemma is_file_cwd: "is_file (w\<lparr>cwd := c\<rparr>) p = is_file w p"
  by (simp add: is_file_def file_node_def walk_cwd split: option.splits)

lemma Path_is_file_cwd: "Path_is_file env (w\<lparr>cwd := c\<rparr>) p = Path_is_file env w p"
  by (simp add: Path_is_file_def is_file_cwd)

lemma Path_is_file_True: "is_file w p \<Longrightarrow> Path_is_file env w p = Inr True"
  by (simp add: Path_is_file_def)

lemma Path_is_dir_True: "is_dir w p \<Longrightarrow> Path_is_dir env w p = Inr True"
  by (simp add: Path_is_dir_def)

lemma chdir_dir: "is_dir w p \<Longrightarrow> chdir w p = Inr (w\<lparr>cwd := resolve p\<rparr>)"
  by (simp add: chdir_def is_dir_def)

lemma run_reached:
  assumes "is_dir w (resolve (joinpath DATA_ROOT (folder args)))"
    and "DATA_ROOT \<in> set (parents (resolve (joinpath DATA_ROOT (folder args))))"
  shows "run_dssat_experiment_validated env w args =
    (let work_dir = resolve (joinpath DATA_ROOT (folder args)); w1 = w\<lparr>cwd := resolve work_dir\<rparr> in
     case Path_is_file env w (joinpath work_dir (experiment_file args)) of
       Inl e \<Rightarrow> (Inl e, w1)
     | Inr False \<Rightarrow> (Inl (HTTPException 400 ''Experiment file not found''), w1)
     | Inr True \<Rightarrow>
         (case subprocess_run env w1 [str_path DSSAT_EXE, ''A'', experiment_file args] work_dir 600 of
            (Inl TimeoutExpired, w2) \<Rightarrow> (Inl (HTTPException 504 ''DSSAT run timed out''), w2)
          | (Inl (LaunchError m), w2) \<Rightarrow> (Inl (OSError m), w2)
          | (Inl OutputDecodeError, w2) \<Rightarrow> (Inl UnicodeDecodeError, w2)
          | (Inr proc, w2) \<Rightarrow>
              (case parse_summary env w2 work_dir of
                 Inl e \<Rightarrow> (Inl e, w2)
               | Inr s \<Rightarrow>
                   (Inr (RunResult (proc_returncode proc) (last_chars 10000 (proc_stdout proc))
                           (last_chars 10000 (proc_stderr proc)) s), w2))))"
  using assms
  by (simp add: run_dssat_experiment_validated_def chdir_dir Path_is_file_cwd Path_is_dir_True Let_def)

lemma last_chars_suffix: "suffix (last_chars n s) s"
  by (simp add: last_chars_def suffix_drop)

lemma last_chars_length: "length (last_chars n s) = min n (length s)"
  by (simp add: last_chars_def)

lemmas ex_path_simps =
  resolve_def joinpath_def DATA_ROOT_def DSSAT_EXE_def str_path_def parents_def
  is_dir_def is_file_def dir_node_def file_node_def

lemma subprocess_run_timeout:
  "dssat env cmd dir w = Inr b \<Longrightarrow> timeout < elapsed b \<Longrightarrow>
   fst (subprocess_run env w cmd dir timeout) = Inl TimeoutExpired"
  by (simp add: subprocess_run_def Let_def)

lemma ex_run_args:
  "run_dssat_experiment_args [(''folder'', JStr f), (''experiment_file'', JStr e)] = Inr (RunArgs f e)"
  by (simp add: run_dssat_experiment_args_def has_key_def RunArgs_init_def)

lemma ex_wheat:
  "resolve (joinpath DATA_ROOT ''Wheat'') = DATA_ROOT @ [''Wheat'']"
  "resolve (DATA_ROOT @ [''Wheat'']) = DATA_ROOT @ [''Wheat'']"
  "is_dir ex_world (DATA_ROOT @ [''Wheat''])"
  "DATA_ROOT \<in> set (parents (DATA_ROOT @ [''Wheat'']))"
  "is_file ex_world (joinpath (DATA_ROOT @ [''Wheat'']) ''SLOW.WHX'')"
  "is_file ex_world (joinpath (DATA_ROOT @ [''Wheat'']) ''SWSW7501.WHX'')"
  "is_file ex_world (joinpath (DATA_ROOT @ [''Wheat'']) ''GARBLED.WHX'')"
  by (simp_all add: ex_path_simps ex_world_def in_parents strict_prefix_def)

section \<open>Running the executable: the timeout\<close>

text \<open>
  Claim C3. When the request passes the checks of \<open>run_dssat_experiment\<close> and the
  executable needs more than 600 seconds, the handler raises the 504 error
  "DSSAT run timed out": its result is the exception, so no exit code, output or summary
  is returned for that launch.
\<close>

theorem run_timeout_is_504:
  assumes "run_dssat_experiment_args payload = Inr args"
    and "wd = resolve (joinpath DATA_ROOT (folder args))"
    and "is_dir w wd"
    and "DATA_ROOT \<in> set (parents wd)"
    and "is_file w (joinpath wd (experiment_file args))"
    and "dssat env [str_path DSSAT_EXE, ''A'', experiment_file args] wd (w\<lparr>cwd := resolve wd\<rparr>) = Inr b"
    and "600 < elapsed b"
  shows "fst (run_dssat_experiment env w payload) = Inl (HTTPException 504 ''DSSAT run timed out'')"
proof -
  have "fst (subprocess_run env (w\<lparr>cwd := resolve wd\<rparr>)
          [str_path DSSAT_EXE, ''A'', experiment_file args] wd 600) = Inl TimeoutExpired"
    using assms(6,7) by (rule subprocess_run_timeout)
  then show ?thesis
    using assms(1-5)
    by (auto simp add: run_dssat_experiment_def run_reached Path_is_file_True Let_def
        split: prod.splits)
qed

theorem run_timeout_is_504_witness:
  "fst (run_dssat_experiment ex_env ex_world
          [(''folder'', JStr ''Wheat''), (''experiment_file'', JStr ''SLOW.WHX'')])
   = Inl (HTTPException 504 ''DSSAT run timed out'')"
proof -
  have b: "dssat ex_env [str_path DSSAT_EXE, ''A'', experiment_file (RunArgs ''Wheat'' ''SLOW.WHX'')]
             (DATA_ROOT @ [''Wheat'']) (ex_world\<lparr>cwd := resolve (DATA_ROOT @ [''Wheat''])\<rparr>)
           = Inr \<lparr>elapsed = 601, returncode = 0, out = [], err = [], writes = []\<rparr>"
    by (simp add: ex_env_def)
  show ?thesis
    by (rule run_timeout_is_504 [OF ex_run_args _ _ _ _ b]) (simp_all add: ex_wheat)
qed

section \<open>The summary parser\<close>

lemma parse_lines_map_filter:
  "parse_lines env ls kpis = kpis @ List.map_filter (summary_record env) ls"
proof (induction ls arbitrary: kpis)
  case Nil
  then show ?case by (simp add: List.map_filter_simps)
next
  case (Cons line rest)
  then show ?case
    by (simp add: List.map_filter_simps summary_record_def split: option.splits)
qed

lemma short_line_no_record:
  assumes "py_float env [] = None" and "length line \<le> 65"
  shows "summary_record env line = None"
  using assms by (simp add: summary_record_def slice_def strip_def)

lemma ex_summary_lines:
  "py_lines ex_summary_text = [ex_header_line, ex_data_line, ex_bad_line]"
  "py_lines ex_mac_text = [ex_header_line, ex_data_line]"
  by code_simp+

lemma ex_summary_records:
  "summary_record ex_env ex_header_line = None"
  "summary_record ex_env ex_data_line
   = Some \<lparr>expt = ''SWSW7501'', pl_date = ''750101'', yield_kg_ha = 5683\<rparr>"
  "summary_record ex_env ex_bad_line = None"
  by code_simp+

lemma ex_summary_file:
  "is_file (ex_world_with_summary t) (joinpath (DATA_ROOT @ [''Wheat'']) ''SUMMARY.OUT'')"
  "read_bytes (ex_world_with_summary t) (joinpath (DATA_ROOT @ [''Wheat'']) ''SUMMARY.OUT'') = t"
  "\<not> is_file ex_world (joinpath (DATA_ROOT @ [''Wheat'']) ''SUMMARY.OUT'')"
  by (simp_all add: ex_path_simps ex_world_with_summary_def ex_world_def read_bytes_def)

lemma ex_decode:
  "decode ex_env ex_summary_text = Some ex_summary_text"
  "decode ex_env ex_mac_text = Some ex_mac_text"
  "decode ex_env (ex_header_line @ [CHR 0xFF]) = None"
  "open_error ex_env p = None"
  "stat_error ex_env p = None"
  by (simp_all add: ex_env_def ex_summary_text_def ex_mac_text_def ex_header_line_def
      ex_data_line_def ex_bad_line_def)

text \<open>
  Claim C5, as the specification has it, says that parsing never raises. It does: the
  file is opened and its lines are read outside the \<^verbatim>\<open>try\<close> block, so a summary file
  that exists but holds a byte the codec rejects makes \<open>parse_summary\<close> raise
  \<^verbatim>\<open>UnicodeDecodeError\<close>.
\<close>

theorem parse_summary_raises_on_undecodable_file:
  "is_file (ex_world_with_summary (ex_header_line @ [CHR 0xFF]))
     (joinpath (DATA_ROOT @ [''Wheat'']) ''SUMMARY.OUT'')
   \<and> parse_summary ex_env (ex_world_with_summary (ex_header_line @ [CHR 0xFF]))
       (DATA_ROOT @ [''Wheat'']) = Inl UnicodeDecodeError"
  by (simp add: parse_summary_def Path_is_file_def open_text_def ex_summary_file ex_decode)

text \<open>
  Claim C5, amended. When \<open>SUMMARY.OUT\<close> is not a file of the working directory,
  \<open>parse_summary\<close> returns \<open>None\<close> (or lets through the error of a path that cannot be
  examined). When it is a file, \<open>parse_summary\<close> raises if the file cannot be opened
  or its bytes cannot be decoded, and otherwise returns a report: its records are the
  records of the lines that parse, in the order of the file, and \<open>n_treatments\<close> is their
  number; the lines are those of the text with universal newlines. No line makes the
  parser raise. A line that starts with \<open>@\<close> or is blank gives no record; a line whose
  columns 65 to 72 are not a number gives none; a line of at most 65 characters gives
  none (Python's \<open>float\<close> rejects the empty string); every other line gives the record
  of its columns 0 to 8, 19 to 25 and 65 to 72, each stripped.
\<close>

theorem parse_summary_report:
  assumes "p = joinpath wd ''SUMMARY.OUT''"
  shows
   "(\<not> is_file w p \<longrightarrow>
       parse_summary env w wd =
         (case stat_error env p of None \<Rightarrow> Inr None | Some m \<Rightarrow> Inl (OSError m)))
    \<and> (is_file w p \<longrightarrow>
       parse_summary env w wd =
         (case open_error env p of
            Some m \<Rightarrow> Inl (OSError m)
          | None \<Rightarrow>
              (case decode env (read_bytes w p) of
                 None \<Rightarrow> Inl UnicodeDecodeError
               | Some text \<Rightarrow>
                   Inr (Some \<lparr>n_treatments =
                                 length (List.map_filter (summary_record env) (py_lines text)),
                               treatments =
                                 List.map_filter (summary_record env) (py_lines text)\<rparr>))))
    \<and> (\<forall>line. prefix ''@'' line \<or> strip line = [] \<longrightarrow> summary_record env line = None)
    \<and> (\<forall>line. py_float env (strip (slice 65 72 line)) = None \<longrightarrow> summary_record env line = None)
    \<and> (py_float env [] = None \<longrightarrow> (\<forall>line. length line \<le> 65 \<longrightarrow> summary_record env line = None))
    \<and> (\<forall>line y. \<not> prefix ''@'' line \<and> strip line \<noteq> []
                  \<and> py_float env (strip (slice 65 72 line)) = Some y \<longrightarrow>
          summary_record env line =
            Some \<lparr>expt = strip (slice 0 8 line), pl_date = strip (slice 19 25 line),
                  yield_kg_ha = y\<rparr>)"
proof -
  have a: "\<not> is_file w p \<longrightarrow>
       parse_summary env w wd =
         (case stat_error env p of None \<Rightarrow> Inr None | Some m \<Rightarrow> Inl (OSError m))"
    using assms by (simp add: parse_summary_def Path_is_file_def split: option.splits)
  have b: "is_file w p \<longrightarrow>
       parse_summary env w wd =
         (case open_error env p of
            Some m \<Rightarrow> Inl (OSError m)
          | None \<Rightarrow>
              (case decode env (read_bytes w p) of
                 None \<Rightarrow> Inl UnicodeDecodeError
               | Some text \<Rightarrow>
                   Inr (Some \<lparr>n_treatments =
                                 length (List.map_filter (summary_record env) (py_lines text)),
                               treatments =
                                 List.map_filter (summary_record env) (py_lines text)\<rparr>)))"
    using assms
    by (simp add: parse_summary_def Path_is_file_def open_text_def parse_lines_map_filter Let_def
        split: option.splits)
  have c: "\<forall>line. prefix ''@'' line \<or> strip line = [] \<longrightarrow> summary_record env line = None"
    by (simp add: summary_record_def)
  have d: "\<forall>line. py_float env (strip (slice 65 72 line)) = None \<longrightarrow> summary_record env line = None"
    by (simp add: summary_record_def)
  have e: "py_float env [] = None \<longrightarrow> (\<forall>line. length line \<le> 65 \<longrightarrow> summary_record env line = None)"
    by (simp add: short_line_no_record)
  have f: "\<forall>line y. \<not> prefix ''@'' line \<and> strip line \<noteq> []
                  \<and> py_float env (strip (slice 65 72 line)) = Some y \<longrightarrow>
          summary_record env line =
            Some \<lparr>expt = strip (slice 0 8 line), pl_date = strip (slice 19 25 line),
                  yield_kg_ha = y\<rparr>"
    by (simp add: summary_record_def)
  from a b c d e f show ?thesis by blast
qed

theorem parse_summary_report_witness:
  "parse_summary ex_env (ex_world_with_summary ex_summary_text) (DATA_ROOT @ [''Wheat'']) =
     Inr (Some \<lparr>n_treatments = 1,
                 treatments = [\<lparr>expt = ''SWSW7501'', pl_date = ''750101'', yield_kg_ha = 5683\<rparr>]\<rparr>)
   \<and> parse_summary ex_env (ex_world_with_summary ex_mac_text) (DATA_ROOT @ [''Wheat'']) =
     Inr (Some \<lparr>n_treatments = 1,
                 treatments = [\<lparr>expt = ''SWSW7501'', pl_date = ''750101'', yield_kg_ha = 5683\<rparr>]\<rparr>)
   \<and> parse_summary ex_env ex_world (DATA_ROOT @ [''Wheat'']) = Inr None"
  using parse_summary_report [OF refl, of "ex_world_with_summary ex_summary_text" "DATA_ROOT @ [''Wheat'']" ex_env]
        parse_summary_report [OF refl, of "ex_world_with_summary ex_mac_text" "DATA_ROOT @ [''Wheat'']" ex_env]
        parse_summary_report [OF refl, of ex_world "DATA_ROOT @ [''Wheat'']" ex_env]
  by (simp add: ex_summary_file ex_decode ex_summary_lines ex_summary_records List.map_filter_simps)

section \<open>Running the executable: the outcome\<close>

lemma universal_newlines_id: "CHR 0x0D \<notin> set s \<Longrightarrow> universal_newlines s = s"
  by (induction s rule: universal_newlines.induct) auto

lemma subprocess_run_completed:
  assumes "dssat env cmd dir w = Inr b" and "elapsed b \<le> timeout"
  shows "subprocess_run env w cmd dir timeout =
    ((case (decode env (out b), decode env (err b)) of
        (Some so, Some se) \<Rightarrow>
          Inr (CompletedProcess (returncode b) (universal_newlines so) (universal_newlines se))
      | _ \<Rightarrow> Inl OutputDecodeError),
     w\<lparr>calls := calls w @ [Subprocess cmd dir],
       files := fold (\<lambda>(f, c). AList.update f c) (writes b) (files w)\<rparr>)"
  using assms by (simp add: subprocess_run_def Let_def split: option.splits)

lemma run_outcome:
  assumes "run_dssat_experiment_args payload = Inr args"
    and "wd = resolve (joinpath DATA_ROOT (folder args))"
    and "is_dir w wd"
    and "DATA_ROOT \<in> set (parents wd)"
    and "is_file w (joinpath wd (experiment_file args))"
    and "dssat env [str_path DSSAT_EXE, ''A'', experiment_file args] wd (w\<lparr>cwd := resolve wd\<rparr>) = Inr b"
    and "elapsed b \<le> 600"
    and "w2 = w\<lparr>cwd := resolve wd,
                 calls := calls w @ [Subprocess [str_path DSSAT_EXE, ''A'', experiment_file args] wd],
                 files := fold (\<lambda>(f, c). AList.update f c) (writes b) (files w)\<rparr>"
  shows "run_dssat_experiment env w payload =
    (case (decode env (out b), decode env (err b)) of
       (Some so, Some se) \<Rightarrow>
         (case parse_summary env w2 wd of
            Inl e \<Rightarrow> (Inl e, w2)
          | Inr s \<Rightarrow>
              (Inr (RunResult (returncode b) (last_chars 10000 (universal_newlines so))
                      (last_chars 10000 (universal_newlines se)) s), w2))
     | _ \<Rightarrow> (Inl UnicodeDecodeError, w2))"
proof -
  let ?cmd = "[str_path DSSAT_EXE, ''A'', experiment_file args]"
  have run: "subprocess_run env (w\<lparr>cwd := resolve wd\<rparr>) ?cmd wd 600 =
    ((case (decode env (out b), decode env (err b)) of
        (Some so, Some se) \<Rightarrow>
          Inr (CompletedProcess (returncode b) (universal_newlines so) (universal_newlines se))
      | _ \<Rightarrow> Inl OutputDecodeError), w2)"
    using subprocess_run_completed [OF assms(6,7)] assms(8) by simp
  have h: "run_dssat_experiment env w payload =
     (case subprocess_run env (w\<lparr>cwd := resolve wd\<rparr>) ?cmd wd 600 of
            (Inl TimeoutExpired, w2) \<Rightarrow> (Inl (HTTPException 504 ''DSSAT run timed out''), w2)
          | (Inl (LaunchError m), w2) \<Rightarrow> (Inl (OSError m), w2)
          | (Inl OutputDecodeError, w2) \<Rightarrow> (Inl UnicodeDecodeError, w2)
          | (Inr proc, w2) \<Rightarrow>
              (case parse_summary env w2 wd of
                 Inl e \<Rightarrow> (Inl e, w2)
               | Inr s \<Rightarrow>
                   (Inr (RunResult (proc_returncode proc) (last_chars 10000 (proc_stdout proc))
                           (last_chars 10000 (proc_stderr proc)) s), w2)))"
    using assms(1,3,4,5) unfolding assms(2)
    by (simp add: run_dssat_experiment_def run_reached Path_is_file_True Let_def)
  show ?thesis
    unfolding h run by (auto split: option.splits sum.splits)
qed

lemma ex_maize:
  "resolve (joinpath DATA_ROOT ''Maize'') = DATA_ROOT @ [''Maize'']"
  "resolve (DATA_ROOT @ [''Maize'']) = DATA_ROOT @ [''Maize'']"
  "is_dir ex_world (DATA_ROOT @ [''Maize''])"
  "DATA_ROOT \<in> set (parents (DATA_ROOT @ [''Maize'']))"
  "is_file ex_world (joinpath (DATA_ROOT @ [''Maize'']) ''../Wheat/SWSW7501.WHX'')"
  "\<not> is_file ex_world (joinpath (DATA_ROOT @ [''Maize'']) ''SWSW7501.WHX'')"
  by (simp_all add: ex_path_simps ex_world_def in_parents strict_prefix_def)

lemma ex_dssat:
  "dssat ex_env [str_path DSSAT_EXE, ''A'', ''GARBLED.WHX''] dir w
   = Inr \<lparr>elapsed = 5, returncode = 0, out = [CHR 0xFF], err = [], writes = []\<rparr>"
  "e \<noteq> ''SLOW.WHX'' \<Longrightarrow> e \<noteq> ''GARBLED.WHX'' \<Longrightarrow>
   dssat ex_env [str_path DSSAT_EXE, ''A'', e] dir w
   = Inr \<lparr>elapsed = 12, returncode = 3, out = ex_out, err = ''warn'',
           writes = [(dir @ [''SUMMARY.OUT''], ex_summary_text)]\<rparr>"
  by (simp_all add: ex_env_def)

lemma ex_streams:
  "decode ex_env ex_out = Some ex_out"
  "decode ex_env ''warn'' = Some ''warn''"
  "decode ex_env [CHR 0xFF] = None"
  "last_chars 10000 (universal_newlines ex_out) = replicate 10000 CHR ''.''"
  "last_chars 10000 (universal_newlines ''warn'') = ''warn''"
  "last_chars 10000 ''warn'' = ''warn''"
  by (simp_all add: ex_env_def ex_out_def universal_newlines_id last_chars_def)

lemma parse_summary_eval:
  assumes "is_file w (joinpath wd ''SUMMARY.OUT'')"
    and "open_error env (joinpath wd ''SUMMARY.OUT'') = None"
    and "decode env (read_bytes w (joinpath wd ''SUMMARY.OUT'')) = Some t"
    and "List.map_filter (summary_record env) (py_lines t) = ks"
  shows "parse_summary env w wd = Inr (Some \<lparr>n_treatments = length ks, treatments = ks\<rparr>)"
  using assms
  by (simp add: parse_summary_def Path_is_file_def open_text_def parse_lines_map_filter Let_def)

lemma ex_records:
  "List.map_filter (summary_record ex_env) (py_lines ex_summary_text)
   = [\<lparr>expt = ''SWSW7501'', pl_date = ''750101'', yield_kg_ha = 5683\<rparr>]"
  by (simp add: ex_summary_lines ex_summary_records List.map_filter_simps)

text \<open>
  Claim C2 does not hold of the code. The handler tests the path made of the working
  directory and the experiment file as the caller wrote it, so a name that steps out of
  the folder is accepted when it leads to a file elsewhere. In the example world the
  folder \<open>Maize\<close> exists and holds one file, \<open>OVERVIEW.OUT\<close>; for the experiment file
  \<open>../Wheat/SWSW7501.WHX\<close> the handler does not raise the 400 error
  "Experiment file not found": it launches the executable in \<open>Maize\<close> with that name
  and returns the outcome of the run.
\<close>

theorem run_launches_on_file_outside_folder:
  "filter (\<lambda>(f, c). prefix (DATA_ROOT @ [''Maize'']) f) (files ex_world)
     = [(DATA_ROOT @ [''Maize'', ''OVERVIEW.OUT''], ''*OUT'')]
   \<and> run_dssat_experiment ex_env ex_world
        [(''folder'', JStr ''Maize''), (''experiment_file'', JStr ''../Wheat/SWSW7501.WHX'')]
     = (Inr (RunResult 3 (replicate 10000 CHR ''.'') ''warn''
               (Some \<lparr>n_treatments = 1,
                      treatments = [\<lparr>expt = ''SWSW7501'', pl_date = ''750101'',
                                     yield_kg_ha = 5683\<rparr>]\<rparr>)),
        ex_world\<lparr>cwd := DATA_ROOT @ [''Maize''],
          calls := [Subprocess [str_path DSSAT_EXE, ''A'', ''../Wheat/SWSW7501.WHX'']
                      (DATA_ROOT @ [''Maize''])],
          files := files ex_world @ [(DATA_ROOT @ [''Maize'', ''SUMMARY.OUT''], ex_summary_text)]\<rparr>)"
proof -
  let ?args = "RunArgs ''Maize'' ''../Wheat/SWSW7501.WHX''"
  let ?wd = "DATA_ROOT @ [''Maize'']"
  let ?b = "\<lparr>elapsed = 12, returncode = 3, out = ex_out, err = ''warn'',
             writes = [(?wd @ [''SUMMARY.OUT''], ex_summary_text)]\<rparr>"
  define w2 where "w2 = ex_world\<lparr>cwd := DATA_ROOT @ [''Maize''],
          calls := [Subprocess [str_path DSSAT_EXE, ''A'', ''../Wheat/SWSW7501.WHX'']
                      (DATA_ROOT @ [''Maize''])],
          files := files ex_world @ [(DATA_ROOT @ [''Maize'', ''SUMMARY.OUT''], ex_summary_text)]\<rparr>"
  have a: "filter (\<lambda>(f, c). prefix (DATA_ROOT @ [''Maize'']) f) (files ex_world)
     = [(DATA_ROOT @ [''Maize'', ''OVERVIEW.OUT''], ''*OUT'')]"
    by (simp add: ex_world_def DATA_ROOT_def)
  have p2: "?wd = resolve (joinpath DATA_ROOT (folder ?args))"
    by (simp add: ex_maize)
  have p5: "is_file ex_world (joinpath ?wd (experiment_file ?args))"
    by (simp add: ex_maize)
  have d: "dssat ex_env [str_path DSSAT_EXE, ''A'', experiment_file ?args] ?wd
             (ex_world\<lparr>cwd := resolve ?wd\<rparr>) = Inr ?b"
    by (simp add: ex_dssat)
  have p7: "elapsed ?b \<le> 600"
    by simp
  have eq: "w2 = ex_world\<lparr>cwd := resolve ?wd,
                 calls := calls ex_world @ [Subprocess [str_path DSSAT_EXE, ''A'', experiment_file ?args] ?wd],
                 files := fold (\<lambda>(f, c). AList.update f c) (writes ?b) (files ex_world)\<rparr>"
    by (simp add: w2_def ex_maize) (simp add: ex_world_def DATA_ROOT_def)
  have s: "parse_summary ex_env w2 ?wd
           = Inr (Some \<lparr>n_treatments = length [\<lparr>expt = ''SWSW7501'', pl_date = ''750101'', yield_kg_ha = 5683::int\<rparr>],
                         treatments = [\<lparr>expt = ''SWSW7501'', pl_date = ''750101'', yield_kg_ha = 5683\<rparr>]\<rparr>)"
  proof (rule parse_summary_eval [where t = ex_summary_text])
    show "is_file w2 (joinpath ?wd ''SUMMARY.OUT'')"
      by (simp add: w2_def ex_path_simps ex_world_def)
    show "open_error ex_env (joinpath ?wd ''SUMMARY.OUT'') = None"
      by (simp add: ex_decode)
    show "decode ex_env (read_bytes w2 (joinpath ?wd ''SUMMARY.OUT'')) = Some ex_summary_text"
      by (simp add: w2_def read_bytes_def ex_path_simps ex_world_def ex_decode)
    show "List.map_filter (summary_record ex_env) (py_lines ex_summary_text)
          = [\<lparr>expt = ''SWSW7501'', pl_date = ''750101'', yield_kg_ha = 5683\<rparr>]"
      by (rule ex_records)
  qed
  have "run_dssat_experiment ex_env ex_world
          [(''folder'', JStr ''Maize''), (''experiment_file'', JStr ''../Wheat/SWSW7501.WHX'')]
        = (Inr (RunResult 3 (replicate 10000 CHR ''.'') ''warn''
               (Some \<lparr>n_treatments = 1,
                      treatments = [\<lparr>expt = ''SWSW7501'', pl_date = ''750101'',
                                     yield_kg_ha = 5683\<rparr>]\<rparr>)), w2)"
    unfolding run_outcome [OF ex_run_args p2 ex_maize(3) ex_maize(4) p5 d p7 eq]
    by (simp add: ex_streams s)
  with a show ?thesis
    by (simp add: w2_def)
qed

text \<open>
  Claim C4, as the specification has it, says that every process that ends within the
  timeout gives an outcome. It does not: the executable ends after 5 seconds with return
  code 0 and an output that holds a byte the codec rejects, and the handler raises
  \<^verbatim>\<open>UnicodeDecodeError\<close> instead of returning a result.
\<close>

theorem run_undecodable_output_raises:
  "dssat ex_env [str_path DSSAT_EXE, ''A'', ''GARBLED.WHX''] (DATA_ROOT @ [''Wheat''])
     (ex_world\<lparr>cwd := DATA_ROOT @ [''Wheat'']\<rparr>)
   = Inr \<lparr>elapsed = 5, returncode = 0, out = [CHR 0xFF], err = [], writes = []\<rparr>
   \<and> fst (run_dssat_experiment ex_env ex_world
            [(''folder'', JStr ''Wheat''), (''experiment_file'', JStr ''GARBLED.WHX'')])
     = Inl UnicodeDecodeError"
proof -
  let ?args = "RunArgs ''Wheat'' ''GARBLED.WHX''"
  let ?wd = "DATA_ROOT @ [''Wheat'']"
  let ?b = "\<lparr>elapsed = 5, returncode = 0, out = [CHR 0xFF], err = [], writes = []\<rparr>"
  have p2: "?wd = resolve (joinpath DATA_ROOT (folder ?args))"
    by (simp add: ex_wheat)
  have p5: "is_file ex_world (joinpath ?wd (experiment_file ?args))"
    by (simp add: ex_wheat)
  have d: "dssat ex_env [str_path DSSAT_EXE, ''A'', experiment_file ?args] ?wd
             (ex_world\<lparr>cwd := resolve ?wd\<rparr>) = Inr ?b"
    by (simp add: ex_dssat)
  have p7: "elapsed ?b \<le> 600"
    by simp
  have "fst (run_dssat_experiment ex_env ex_world
            [(''folder'', JStr ''Wheat''), (''experiment_file'', JStr ''GARBLED.WHX'')])
        = Inl UnicodeDecodeError"
    unfolding run_outcome [OF ex_run_args p2 ex_wheat(3) ex_wheat(4) p5 d p7 refl]
    by (simp add: ex_streams)
  then show ?thesis
    by (simp add: ex_dssat)
qed

text \<open>
  Claim C4, amended. When the request passes the checks and the executable ends within
  600 seconds, leaving the world \<open>w2\<close>: if both streams decode and the summary parser
  does not raise on \<open>w2\<close>, the handler returns a result whatever the return code is;
  \<open>exit_code\<close> is the return code, \<open>stdout\<close> and \<open>stderr\<close> are the last 10,000
  characters of the decoded streams with universal newlines (a suffix of the stream whose
  length is the smaller of 10,000 and the stream's length), and \<open>summary\<close> is what the
  parser returned. If a stream does not decode the handler raises
  \<^verbatim>\<open>UnicodeDecodeError\<close>, and if the summary parser raises, the handler raises the same
  exception.
\<close>

theorem run_returns_outcome:
  assumes "run_dssat_experiment_args payload = Inr args"
    and "wd = resolve (joinpath DATA_ROOT (folder args))"
    and "is_dir w wd"
    and "DATA_ROOT \<in> set (parents wd)"
    and "is_file w (joinpath wd (experiment_file args))"
    and "dssat env [str_path DSSAT_EXE, ''A'', experiment_file args] wd (w\<lparr>cwd := resolve wd\<rparr>) = Inr b"
    and "elapsed b \<le> 600"
    and "w2 = w\<lparr>cwd := resolve wd,
                 calls := calls w @ [Subprocess [str_path DSSAT_EXE, ''A'', experiment_file args] wd],
                 files := fold (\<lambda>(f, c). AList.update f c) (writes b) (files w)\<rparr>"
  shows "(\<forall>so se s. decode env (out b) = Some so \<and> decode env (err b) = Some se
              \<and> parse_summary env w2 wd = Inr s \<longrightarrow>
            (\<exists>r. run_dssat_experiment env w payload = (Inr r, w2)
               \<and> exit_code r = returncode b
               \<and> stdout r = last_chars 10000 (universal_newlines so)
               \<and> suffix (stdout r) (universal_newlines so)
               \<and> length (stdout r) = min 10000 (length (universal_newlines so))
               \<and> stderr r = last_chars 10000 (universal_newlines se)
               \<and> suffix (stderr r) (universal_newlines se)
               \<and> length (stderr r) = min 10000 (length (universal_newlines se))
               \<and> summary r = s))
       \<and> (decode env (out b) = None \<or> decode env (err b) = None \<longrightarrow>
            run_dssat_experiment env w payload = (Inl UnicodeDecodeError, w2))
       \<and> (\<forall>so se e. decode env (out b) = Some so \<and> decode env (err b) = Some se
              \<and> parse_summary env w2 wd = Inl e \<longrightarrow>
            run_dssat_experiment env w payload = (Inl e, w2))"
  unfolding run_outcome [OF assms]
  by (auto simp add: last_chars_suffix last_chars_length split: option.splits)

theorem run_returns_outcome_witness:
  "fst (run_dssat_experiment ex_env ex_world
          [(''folder'', JStr ''Wheat''), (''experiment_file'', JStr ''SWSW7501.WHX'')])
   = Inr (RunResult 3 (replicate 10000 CHR ''.'') ''warn''
            (Some \<lparr>n_treatments = 1,
                   treatments = [\<lparr>expt = ''SWSW7501'', pl_date = ''750101'',
                                  yield_kg_ha = 5683\<rparr>]\<rparr>))"
proof -
  let ?args = "RunArgs ''Wheat'' ''SWSW7501.WHX''"
  let ?wd = "DATA_ROOT @ [''Wheat'']"
  let ?b = "\<lparr>elapsed = 12, returncode = 3, out = ex_out, err = ''warn'',
             writes = [(?wd @ [''SUMMARY.OUT''], ex_summary_text)]\<rparr>"
  let ?s = "Some \<lparr>n_treatments = 1,
                   treatments = [\<lparr>expt = ''SWSW7501'', pl_date = ''750101'',
                                  yield_kg_ha = 5683::int\<rparr>]\<rparr>"
  define w2 where "w2 = ex_world\<lparr>cwd := DATA_ROOT @ [''Wheat''],
          calls := [Subprocess [str_path DSSAT_EXE, ''A'', ''SWSW7501.WHX''] (DATA_ROOT @ [''Wheat''])],
          files := files ex_world @ [(DATA_ROOT @ [''Wheat'', ''SUMMARY.OUT''], ex_summary_text)]\<rparr>"
  have p2: "?wd = resolve (joinpath DATA_ROOT (folder ?args))"
    by (simp add: ex_wheat)
  have p5: "is_file ex_world (joinpath ?wd (experiment_file ?args))"
    by (simp add: ex_wheat)
  have d: "dssat ex_env [str_path DSSAT_EXE, ''A'', experiment_file ?args] ?wd
             (ex_world\<lparr>cwd := resolve ?wd\<rparr>) = Inr ?b"
    by (simp add: ex_dssat)
  have p7: "elapsed ?b \<le> 600"
    by simp
  have eq: "w2 = ex_world\<lparr>cwd := resolve ?wd,
                 calls := calls ex_world @ [Subprocess [str_path DSSAT_EXE, ''A'', experiment_file ?args] ?wd],
                 files := fold (\<lambda>(f, c). AList.update f c) (writes ?b) (files ex_world)\<rparr>"
    by (simp add: w2_def ex_wheat) (simp add: ex_world_def DATA_ROOT_def)
  have s: "parse_summary ex_env w2 ?wd
           = Inr (Some \<lparr>n_treatments = length [\<lparr>expt = ''SWSW7501'', pl_date = ''750101'', yield_kg_ha = 5683::int\<rparr>],
                         treatments = [\<lparr>expt = ''SWSW7501'', pl_date = ''750101'', yield_kg_ha = 5683\<rparr>]\<rparr>)"
  proof (rule parse_summary_eval [where t = ex_summary_text])
    show "is_file w2 (joinpath ?wd ''SUMMARY.OUT'')"
      by (simp add: w2_def ex_path_simps ex_world_def)
    show "open_error ex_env (joinpath ?wd ''SUMMARY.OUT'') = None"
      by (simp add: ex_decode)
    show "decode ex_env (read_bytes w2 (joinpath ?wd ''SUMMARY.OUT'')) = Some ex_summary_text"
      by (simp add: w2_def read_bytes_def ex_path_simps ex_world_def ex_decode)
    show "List.map_filter (summary_record ex_env) (py_lines ex_summary_text)
          = [\<lparr>expt = ''SWSW7501'', pl_date = ''750101'', yield_kg_ha = 5683\<rparr>]"
      by (rule ex_records)
  qed
  obtain r where r: "run_dssat_experiment ex_env ex_world
          [(''folder'', JStr ''Wheat''), (''experiment_file'', JStr ''SWSW7501.WHX'')] = (Inr r, w2)"
      "exit_code r = 3" "stdout r = replicate 10000 CHR ''.''" "stderr r = ''warn''"
      "summary r = ?s"
    using run_returns_outcome [OF ex_run_args p2 ex_wheat(3) ex_wheat(4) p5 d p7 eq]
    by (auto simp add: ex_streams s)
  then show ?thesis
    by (metis RunResult.collapse fst_conv)
qed

section \<open>The two shapes of a request\<close>









section \<open>The download loop\<close>

lemma walk_dirs: "dirs w' = dirs w \<Longrightarrow> walk w' cur ss = walk w cur ss"
  by (induction ss arbitrary: cur) (simp_all add: dir_node_def)

lemma local_target_frame:
  "dirs w' = dirs w \<Longrightarrow> cwd w' = cwd w \<Longrightarrow> local_target w' k = local_target w k"
  by (simp add: local_target_def dir_node_def walk_dirs [of w' w] Let_def
      cong: option.case_cong if_cong)

lemma download_failure_frame:
  "dirs w' = dirs w \<Longrightarrow> cwd w' = cwd w \<Longrightarrow> download_failure env w' n k = download_failure env w n k"
  by (simp add: download_failure_def local_target_frame [of w' w]
      cong: option.case_cong sum.case_cong s3_error.case_cong)

lemma failures_frame:
  "dirs w' = dirs w \<Longrightarrow> cwd w' = cwd w \<Longrightarrow> failures env w' n ks = failures env w n ks"
  by (induction ks arbitrary: n)
     (simp_all add: download_failure_frame [of w' w] cong: option.case_cong)

lemma stores_frame:
  "dirs w' = dirs w \<Longrightarrow> cwd w' = cwd w \<Longrightarrow> stores env w' n ks = stores env w n ks"
  by (induction ks arbitrary: n)
     (simp_all add: local_target_frame [of w' w] cong: option.case_cong sum.case_cong)

lemma download_file_world:
  "snd (download_file env w k) =
     w\<lparr>calls := calls w @ [Download k],
       files := fold (\<lambda>(t, b). AList.update t b) (stores env w (length (calls w)) [k]) (files w)\<rparr>"
  by (simp add: download_file_def Let_def split: sum.splits option.splits)

lemma download_loop_step:
  "download_loop env (k # ks) errs w =
     download_loop env ks
       (case download_failure env w (length (calls w)) k of
          None \<Rightarrow> errs
        | Some r \<Rightarrow> AList.update k r errs)
       (snd (download_file env w k))"
  by (simp add: download_file_def download_failure_def Let_def
      split: sum.splits option.splits s3_error.splits)

lemma failures_Cons:
  "failures env w n (k # ks) =
     (case download_failure env w n k of None \<Rightarrow> [] | Some r \<Rightarrow> [(k, r)])
     @ failures env w (Suc n) ks"
  by (simp split: option.splits)

lemma stores_Cons:
  "stores env w n (k # ks) = stores env w n [k] @ stores env w (Suc n) ks"
  by (simp split: option.splits sum.splits)

lemma download_loop_closed:
  "download_loop env ks errs w =
     (fold (\<lambda>(k, r). AList.update k r) (failures env w (length (calls w)) ks) errs,
      w\<lparr>calls := calls w @ map Download ks,
        files := fold (\<lambda>(t, b). AList.update t b) (stores env w (length (calls w)) ks) (files w)\<rparr>)"
proof (induction ks arbitrary: errs w)
  case Nil
  then show ?case by simp
next
  case (Cons k ks)
  define w1 where "w1 = snd (download_file env w k)"
  define errs1 where "errs1 = (case download_failure env w (length (calls w)) k of
          None \<Rightarrow> errs | Some r \<Rightarrow> AList.update k r errs)"
  have w1: "w1 = w\<lparr>calls := calls w @ [Download k],
       files := fold (\<lambda>(t, b). AList.update t b) (stores env w (length (calls w)) [k]) (files w)\<rparr>"
    unfolding w1_def by (rule download_file_world)
  have fr: "dirs w1 = dirs w" "cwd w1 = cwd w" "length (calls w1) = Suc (length (calls w))"
    by (simp_all add: w1)
  have tail: "failures env w1 (length (calls w1)) ks = failures env w (Suc (length (calls w))) ks"
     "stores env w1 (length (calls w1)) ks = stores env w (Suc (length (calls w))) ks"
    using fr by (simp_all add: failures_frame [of w1 w] stores_frame [of w1 w])
  have e: "fold (\<lambda>(k, r). AList.update k r) (failures env w (Suc (length (calls w))) ks) errs1
         = fold (\<lambda>(k, r). AList.update k r) (failures env w (length (calls w)) (k # ks)) errs"
    unfolding failures_Cons [of env w "length (calls w)"] errs1_def
    by (simp split: option.splits)
  have f: "w1\<lparr>calls := calls w1 @ map Download ks,
        files := fold (\<lambda>(t, b). AList.update t b) (stores env w (Suc (length (calls w))) ks) (files w1)\<rparr>
      = w\<lparr>calls := calls w @ map Download (k # ks),
        files := fold (\<lambda>(t, b). AList.update t b) (stores env w (length (calls w)) (k # ks)) (files w)\<rparr>"
    unfolding stores_Cons [of env w "length (calls w)" k ks]
    by (simp add: w1)
  have "download_loop env (k # ks) errs w = download_loop env ks errs1 w1"
    unfolding w1_def errs1_def by (rule download_loop_step)
  also have "\<dots> = (fold (\<lambda>(k, r). AList.update k r) (failures env w1 (length (calls w1)) ks) errs1,
      w1\<lparr>calls := calls w1 @ map Download ks,
        files := fold (\<lambda>(t, b). AList.update t b) (stores env w1 (length (calls w1)) ks) (files w1)\<rparr>)"
    by (rule Cons.IH)
  finally show ?case
    unfolding tail e f .
qed

lemma failures_set:
  "(k, r) \<in> set (failures env w n ks) \<longleftrightarrow>
     (\<exists>i<length ks. ks ! i = k \<and> download_failure env w (n + i) k = Some r)"
proof (induction ks arbitrary: n)
  case Nil
  then show ?case by simp
next
  case (Cons a ks)
  have "(\<exists>i<length (a # ks). (a # ks) ! i = k \<and> download_failure env w (n + i) k = Some r)
        \<longleftrightarrow> (a = k \<and> download_failure env w n k = Some r)
            \<or> (\<exists>i<length ks. ks ! i = k \<and> download_failure env w (Suc n + i) k = Some r)"
    by (auto simp add: less_Suc_eq_0_disj)
  then show ?case
    using Cons.IH [of "Suc n"] by (auto split: option.splits)
qed

lemma failures_keys:
  "fst ` set (failures env w n ks) =
     {ks ! i |i. i < length ks \<and> download_failure env w (n + i) (ks ! i) \<noteq> None}"
proof -
  have "k \<in> fst ` set (failures env w n ks) \<longleftrightarrow>
        (\<exists>i<length ks. ks ! i = k \<and> download_failure env w (n + i) k \<noteq> None)" for k
  proof -
    have "k \<in> fst ` set (failures env w n ks) \<longleftrightarrow> (\<exists>r. (k, r) \<in> set (failures env w n ks))"
      by force
    then show ?thesis
      unfolding failures_set by auto
  qed
  moreover have "k \<in> {ks ! i |i. i < length ks \<and> download_failure env w (n + i) (ks ! i) \<noteq> None}
        \<longleftrightarrow> (\<exists>i<length ks. ks ! i = k \<and> download_failure env w (n + i) k \<noteq> None)" for k
    unfolding mem_Collect_eq by (intro iffI; elim exE conjE; fast)
  ultimately show ?thesis by (intro set_eqI) (simp only:)
qed

lemma map_of_fold_update:
  "map_of (fold (\<lambda>(k, r). AList.update k r) xs errs) = map_of errs ++ map_of (rev xs)"
proof (induction xs arbitrary: errs)
  case Nil
  then show ?case by simp
next
  case (Cons x xs)
  obtain k r where x: "x = (k, r)" by (cases x)
  show ?case
    by (simp add: x Cons.IH update_conv' map_add_upd_left)
       (rule ext, simp add: map_add_def split: option.splits)
qed

lemma fold_update_keys:
  "fst ` set (fold (\<lambda>(k, r). AList.update k r) xs errs) = fst ` set errs \<union> fst ` set xs"
proof -
  have "dom (map_of (fold (\<lambda>(k, r). AList.update k r) xs errs))
        = dom (map_of errs) \<union> dom (map_of (rev xs))"
    unfolding map_of_fold_update by auto
  then show ?thesis
    by (simp add: dom_map_of_conv_image_fst)
qed

lemma fold_update_distinct:
  "distinct (map fst errs) \<Longrightarrow> distinct (map fst (fold (\<lambda>(k, r). AList.update k r) xs errs))"
  by (induction xs arbitrary: errs) (auto simp add: distinct_update)

lemma failures_last:
  assumes "i < length ks"
    and "download_failure env w (n + i) (ks ! i) = Some r"
    and "\<forall>j<length ks. i < j \<and> ks ! j = ks ! i \<longrightarrow> download_failure env w (n + j) (ks ! j) = None"
  shows "map_of (fold (\<lambda>(k, r). AList.update k r) (failures env w n ks) errs) (ks ! i) = Some r"
  using assms
proof (induction ks arbitrary: n i errs)
  case Nil
  then show ?case by simp
next
  case (Cons a ks)
  show ?case
  proof (cases i)
    case 0
    have "a \<notin> fst ` set (failures env w (Suc n) ks)"
    proof
      assume "a \<in> fst ` set (failures env w (Suc n) ks)"
      then obtain j where j: "j < length ks" "ks ! j = a"
          "download_failure env w (Suc n + j) (ks ! j) \<noteq> None"
        unfolding failures_keys by blast
      then show False
        using Cons.prems(3) [rule_format, of "Suc j"] 0 by simp
    qed
    then have "map_of (rev (failures env w (Suc n) ks)) a = None"
      by (simp add: map_of_eq_None_iff)
    then show ?thesis
      using Cons.prems(2) 0
      by (simp add: map_of_fold_update update_conv' map_add_def)
  next
    case (Suc i')
    have a: "i' < length ks"
      using Cons.prems(1) Suc by simp
    have b: "download_failure env w (Suc n + i') (ks ! i') = Some r"
      using Cons.prems(2) Suc by simp
    have c: "\<forall>j<length ks. i' < j \<and> ks ! j = ks ! i' \<longrightarrow>
               download_failure env w (Suc n + j) (ks ! j) = None"
    proof (intro allI impI)
      fix j
      assume "j < length ks" "i' < j \<and> ks ! j = ks ! i'"
      then show "download_failure env w (Suc n + j) (ks ! j) = None"
        using Cons.prems(3) [rule_format, of "Suc j"] Suc by simp
    qed
    note ih = Cons.IH [OF a b c]
    show ?thesis
      using ih [of errs]
            ih [of "AList.update a (the (download_failure env w n a)) errs"]
      by (auto simp add: Suc split: option.splits)
  qed
qed

lemma mkdir_parents_frame:
  assumes "mkdir_parents w p = Inr w1"
  shows "calls w1 = calls w" "files w1 = files w" "cwd w1 = cwd w" "pinned w1 = pinned w"
    "bucket w1 = bucket w" "dir_node w1 (resolve p)" "set (dirs w) \<subseteq> set (dirs w1)"
  using assms by (auto simp add: mkdir_parents_def Let_def dir_node_def split: if_splits)

lemma download_reached:
  assumes "wd = resolve (joinpath DATA_ROOT (dl_folder args))"
    and "DATA_ROOT \<in> set (parents wd)"
    and "mkdir_parents w wd = Inr w1"
    and "boto3_client env = None"
    and "w2 = w1\<lparr>cwd := resolve wd\<rparr>"
    and "n = length (calls w)"
    and "ks = files_names_list args"
    and "w3 = w2\<lparr>calls := calls w @ map Download ks,
                 files := fold (\<lambda>(t, b). AList.update t b) (stores env w2 n ks) (files w)\<rparr>"
    and "errors = fold (\<lambda>(k, r). AList.update k r) (failures env w2 n ks) []"
  shows "download_files_from_s3_validated env w args =
     (if errors \<noteq> [] then (Inl (DownloadsFailed errors), w3)
      else
        (case Path_is_file env w3 (joinpath wd (dl_experiment_file args)) of
           Inl e \<Rightarrow> (Inl e, w3)
         | Inr False \<Rightarrow> (Inl (HTTPException 400 ''Experiment file not found''), w3)
         | Inr True \<Rightarrow> (Inr (DownloadS3ArgsResult 200 (dl_folder args)), w3)))"
proof -
  note fr = mkdir_parents_frame [OF assms(3)]
  have cd: "chdir w1 wd = Inr w2"
    using fr(6) by (simp add: chdir_def assms(5))
  have n: "length (calls w2) = n" "calls w2 = calls w" "files w2 = files w"
    by (simp_all add: assms(5,6) fr)
  have loop: "download_loop env ks [] w2 = (errors, w3)"
    unfolding download_loop_closed n assms(8,9) by (simp add: assms(6))
  show ?thesis
    using assms(2,3) cd assms(4) loop
    unfolding download_files_from_s3_validated_def assms(1) [symmetric] assms(7) [symmetric]
    by (simp add: Let_def)
qed

end
